theory Spec2Isabelle
  imports Main "HOL-Library.Word" "HOL-Library.Sublist"
begin

unbundle bit_operations_syntax

section \<open>The status screen of lily58_oled.c\<close>

text \<open>
  A shallow embedding of \<^verbatim>\<open>src/config/lily58_oled.c\<close>. The file is glue code between
  the ZMK event manager and the LVGL object tree: six module-level handles, one screen
  builder and three event listeners. The handles become a record of optional objects
  (\<open>None\<close> is the C \<^verbatim>\<open>NULL\<close>), every listener takes the record and returns the new
  one, and whatever C leaves undefined (a write through \<^verbatim>\<open>NULL\<close>, a \<^verbatim>\<open>strcat\<close> past
  the end of its buffer, a read past the end of a table) is a value of type \<open>fault\<close>.
\<close>

subsection \<open>Faults\<close>

datatype fault = NullPointer | BufferOverflow | IndexOutOfRange

definition bind_res :: "fault + 'a \<Rightarrow> ('a \<Rightarrow> fault + 'b) \<Rightarrow> fault + 'b" where
  "bind_res r f = (case r of Inl e \<Rightarrow> Inl e | Inr x \<Rightarrow> f x)"

subsection \<open>What the ZMK headers and the build configuration supply\<close>

type_synonym u8 = "8 word"

text \<open>
  The macros \<^verbatim>\<open>MOD_LCTL\<close> ... \<^verbatim>\<open>MOD_RGUI\<close> and \<^verbatim>\<open>ZMK_EV_EVENT_BUBBLE\<close> come from
  ZMK headers that are not part of the repository, and
  \<^verbatim>\<open>CONFIG_ZMK_SPLIT_BLE_ROLE_PERIPHERAL\<close> from the build configuration, so they are
  parameters of the model. \<^verbatim>\<open>zmk_mod_flags_t\<close> is taken to be an 8-bit unsigned integer.
\<close>

record zmk_env =
  CONFIG_ZMK_SPLIT_BLE_ROLE_PERIPHERAL :: bool
  MOD_LCTL :: u8
  MOD_RCTL :: u8
  MOD_LALT :: u8
  MOD_RALT :: u8
  MOD_LSFT :: u8
  MOD_RSFT :: u8
  MOD_LGUI :: u8
  MOD_RGUI :: u8
  ZMK_EV_EVENT_BUBBLE :: int

text \<open>The values the ZMK headers give these macros, for the central (left) half.\<close>

definition zmk_central :: zmk_env where
  "zmk_central =
     \<lparr> CONFIG_ZMK_SPLIT_BLE_ROLE_PERIPHERAL = False,
       MOD_LCTL = 0x01, MOD_RCTL = 0x10,
       MOD_LALT = 0x04, MOD_RALT = 0x40,
       MOD_LSFT = 0x02, MOD_RSFT = 0x20,
       MOD_LGUI = 0x08, MOD_RGUI = 0x80,
       ZMK_EV_EVENT_BUBBLE = 0 \<rparr>"

text \<open>The same headers, built for the peripheral (right) half.\<close>

definition zmk_peripheral :: zmk_env where
  "zmk_peripheral = zmk_central \<lparr> CONFIG_ZMK_SPLIT_BLE_ROLE_PERIPHERAL := True \<rparr>"

subsection \<open>C strings in fixed buffers\<close>

text \<open>
  A buffer \<^verbatim>\<open>char buf[cap]\<close> holds a string of at most \<open>cap - 1\<close> characters and its
  terminator. \<^verbatim>\<open>strcat\<close> and \<^verbatim>\<open>strcpy\<close> do not check the capacity: writing past it is
  a fault. \<^verbatim>\<open>snprintf\<close> truncates to \<open>cap - 1\<close> characters.
\<close>

definition strcat :: "nat \<Rightarrow> string \<Rightarrow> string \<Rightarrow> fault + string" where
  "strcat cap dst src =
     (if length dst + length src + 1 \<le> cap then Inr (dst @ src) else Inl BufferOverflow)"

definition strcpy :: "nat \<Rightarrow> string \<Rightarrow> fault + string" where
  "strcpy cap src = (if length src + 1 \<le> cap then Inr src else Inl BufferOverflow)"

definition strlen :: "string \<Rightarrow> nat" where
  "strlen s = length s"

definition snprintf :: "nat \<Rightarrow> string \<Rightarrow> string" where
  "snprintf cap s = take (cap - 1) s"

text \<open>The conversion \<^verbatim>\<open>%d\<close> of a value that is not negative, and \<^verbatim>\<open>%3d\<close>.\<close>

definition digit_char :: "nat \<Rightarrow> char" where
  "digit_char d = ''0123456789'' ! d"

fun fmt_d :: "nat \<Rightarrow> string" where
  "fmt_d n = (if n < 10 then [digit_char n] else fmt_d (n div 10) @ [digit_char (n mod 10)])"

declare fmt_d.simps [simp del]

definition fmt_3d :: "nat \<Rightarrow> string" where
  "fmt_3d n = replicate (3 - length (fmt_d n)) CHR '' '' @ fmt_d n"

subsection \<open>LVGL objects\<close>

text \<open>
  The rendering surface is LVGL, used through its public calls only. An object carries
  what those calls set: the hidden flag, a label's text, a bar's range and value,
  the colours, an image's source and the alignment. Each call is the update it makes
  to the object it is given; the value a bar is given is recorded as it is passed.
\<close>

datatype lv_color = lv_color_make u8 u8 u8

definition lv_color_black :: lv_color where
  "lv_color_black = lv_color_make 0x00 0x00 0x00"

definition lv_color_white :: lv_color where
  "lv_color_white = lv_color_make 0xFF 0xFF 0xFF"

datatype lv_align = LV_ALIGN_CENTER | LV_ALIGN_TOP_LEFT | LV_ALIGN_TOP_MID | LV_ALIGN_BOTTOM_MID

datatype lv_img_cf = LV_IMG_CF_INDEXED_1BIT

record lv_img_dsc =
  cf :: lv_img_cf
  w :: nat
  h :: nat
  data_size :: nat
  data :: "u8 list"

datatype lv_anim_enable = LV_ANIM_OFF | LV_ANIM_ON

datatype lv_class = lv_obj_class | lv_img_class | lv_label_class | lv_bar_class

record lv_obj =
  class_p :: lv_class
  flag_hidden :: bool
  label_text :: string
  bar_range :: "int \<times> int"
  bar_value :: int
  bar_anim :: lv_anim_enable
  bg_color_main :: "lv_color option"
  bg_color_indicator :: "lv_color option"
  text_color :: "lv_color option"
  img_src :: "lv_img_dsc option"
  align :: "(lv_align \<times> int \<times> int) option"

text \<open>A fresh object is shown and has nothing styled; creating one is assumed to
  succeed.\<close>

definition lv_obj_create :: "lv_class \<Rightarrow> lv_obj" where
  "lv_obj_create c =
     \<lparr> class_p = c, flag_hidden = False,
       label_text = (if c = lv_label_class then ''Text'' else []),
       bar_range = (0, 100), bar_value = 0, bar_anim = LV_ANIM_OFF,
       bg_color_main = None, bg_color_indicator = None, text_color = None,
       img_src = None, align = None \<rparr>"

definition lv_img_create :: "lv_obj \<Rightarrow> lv_obj" where
  "lv_img_create parent = lv_obj_create lv_img_class"

definition lv_label_create :: "lv_obj \<Rightarrow> lv_obj" where
  "lv_label_create parent = lv_obj_create lv_label_class"

definition lv_bar_create :: "lv_obj \<Rightarrow> lv_obj" where
  "lv_bar_create parent = lv_obj_create lv_bar_class"

definition lv_img_set_src :: "lv_img_dsc \<Rightarrow> lv_obj \<Rightarrow> lv_obj" where
  "lv_img_set_src d ob = ob\<lparr>img_src := Some d\<rparr>"

definition lv_obj_align :: "lv_align \<Rightarrow> int \<Rightarrow> int \<Rightarrow> lv_obj \<Rightarrow> lv_obj" where
  "lv_obj_align a x y ob = ob\<lparr>align := Some (a, x, y)\<rparr>"

definition lv_label_set_text :: "string \<Rightarrow> lv_obj \<Rightarrow> lv_obj" where
  "lv_label_set_text t ob = ob\<lparr>label_text := t\<rparr>"

datatype lv_obj_flag = LV_OBJ_FLAG_HIDDEN

definition lv_obj_add_flag :: "lv_obj_flag \<Rightarrow> lv_obj \<Rightarrow> lv_obj" where
  "lv_obj_add_flag f ob = (case f of LV_OBJ_FLAG_HIDDEN \<Rightarrow> ob\<lparr>flag_hidden := True\<rparr>)"

definition lv_obj_clear_flag :: "lv_obj_flag \<Rightarrow> lv_obj \<Rightarrow> lv_obj" where
  "lv_obj_clear_flag f ob = (case f of LV_OBJ_FLAG_HIDDEN \<Rightarrow> ob\<lparr>flag_hidden := False\<rparr>)"

definition lv_obj_set_style_text_color :: "lv_color \<Rightarrow> lv_obj \<Rightarrow> lv_obj" where
  "lv_obj_set_style_text_color c ob = ob\<lparr>text_color := Some c\<rparr>"

text \<open>The selector is 0 (the main part) or \<^verbatim>\<open>LV_PART_INDICATOR\<close>.\<close>

datatype lv_part = LV_PART_MAIN | LV_PART_INDICATOR

definition lv_obj_set_style_bg_color :: "lv_color \<Rightarrow> lv_part \<Rightarrow> lv_obj \<Rightarrow> lv_obj" where
  "lv_obj_set_style_bg_color c sel ob =
     (case sel of
        LV_PART_MAIN \<Rightarrow> ob\<lparr>bg_color_main := Some c\<rparr>
      | LV_PART_INDICATOR \<Rightarrow> ob\<lparr>bg_color_indicator := Some c\<rparr>)"

definition lv_bar_set_range :: "int \<Rightarrow> int \<Rightarrow> lv_obj \<Rightarrow> lv_obj" where
  "lv_bar_set_range lo hi ob = ob\<lparr>bar_range := (lo, hi)\<rparr>"

definition lv_bar_set_value :: "int \<Rightarrow> lv_anim_enable \<Rightarrow> lv_obj \<Rightarrow> lv_obj" where
  "lv_bar_set_value v anim ob = ob\<lparr>bar_value := v, bar_anim := anim\<rparr>"

subsection \<open>The module's state\<close>

text \<open>
  The six file-scope handles. Each is \<^verbatim>\<open>NULL\<close> until the builder of its half has run,
  and each object is reached through its own handle only, so a handle is modelled as
  the optional object it points to.
\<close>

record screen =
  logo_img :: "lv_obj option"
  layer_lbl :: "lv_obj option"
  mod_lbl :: "lv_obj option"
  wpm_lbl :: "lv_obj option"
  wpm_val :: "lv_obj option"
  wpm_bar :: "lv_obj option"

definition screen_init :: screen where
  "screen_init = \<lparr> logo_img = None, layer_lbl = None, mod_lbl = None,
                   wpm_lbl = None, wpm_val = None, wpm_bar = None \<rparr>"

text \<open>An LVGL call through a handle: a fault when the handle is \<^verbatim>\<open>NULL\<close>.\<close>

definition via_logo_img :: "(lv_obj \<Rightarrow> lv_obj) \<Rightarrow> screen \<Rightarrow> fault + screen" where
  "via_logo_img f s =
     (case logo_img s of None \<Rightarrow> Inl NullPointer | Some ob \<Rightarrow> Inr (s\<lparr>logo_img := Some (f ob)\<rparr>))"

definition via_layer_lbl :: "(lv_obj \<Rightarrow> lv_obj) \<Rightarrow> screen \<Rightarrow> fault + screen" where
  "via_layer_lbl f s =
     (case layer_lbl s of None \<Rightarrow> Inl NullPointer | Some ob \<Rightarrow> Inr (s\<lparr>layer_lbl := Some (f ob)\<rparr>))"

definition via_mod_lbl :: "(lv_obj \<Rightarrow> lv_obj) \<Rightarrow> screen \<Rightarrow> fault + screen" where
  "via_mod_lbl f s =
     (case mod_lbl s of None \<Rightarrow> Inl NullPointer | Some ob \<Rightarrow> Inr (s\<lparr>mod_lbl := Some (f ob)\<rparr>))"

definition via_wpm_lbl :: "(lv_obj \<Rightarrow> lv_obj) \<Rightarrow> screen \<Rightarrow> fault + screen" where
  "via_wpm_lbl f s =
     (case wpm_lbl s of None \<Rightarrow> Inl NullPointer | Some ob \<Rightarrow> Inr (s\<lparr>wpm_lbl := Some (f ob)\<rparr>))"

definition via_wpm_val :: "(lv_obj \<Rightarrow> lv_obj) \<Rightarrow> screen \<Rightarrow> fault + screen" where
  "via_wpm_val f s =
     (case wpm_val s of None \<Rightarrow> Inl NullPointer | Some ob \<Rightarrow> Inr (s\<lparr>wpm_val := Some (f ob)\<rparr>))"

definition via_wpm_bar :: "(lv_obj \<Rightarrow> lv_obj) \<Rightarrow> screen \<Rightarrow> fault + screen" where
  "via_wpm_bar f s =
     (case wpm_bar s of None \<Rightarrow> Inl NullPointer | Some ob \<Rightarrow> Inr (s\<lparr>wpm_bar := Some (f ob)\<rparr>))"

subsection \<open>Tables\<close>

definition lily58_logo :: "u8 list" where
  "lily58_logo =
     [0x00,0x00,0x00,0x00,0x00,0x00,0x00,0x00,0x00,0x00,0x00,0x00,0x00,0x00,0x00,0x00,
      0x3C,0x4E,0x49,0x59,0x59,0x4E,0x3C,0x00,0x3C,0x52,0x52,0x52,0x52,0x52,0x3C,0x00,
      0x7E,0x40,0x40,0x7C,0x40,0x40,0x7E,0x00,0x7E,0x02,0x02,0x7E,0x40,0x40,0x7E,0x00,
      0x00,0x00,0x00,0x00,0x00,0x00,0x00,0x00,0x00,0x00,0x00,0x00,0x00,0x00,0x00,0x00]
     @ replicate 448 0x00"

definition layer_names :: "string list" where
  "layer_names = [''QWERTY'', ''NAV'', ''SYM'', ''FUN'']"

definition NUM_LAYERS :: nat where
  "NUM_LAYERS = length layer_names"

text \<open>Reading a table: past its end is a fault.\<close>

definition array_read :: "'a list \<Rightarrow> nat \<Rightarrow> fault + 'a" where
  "array_read xs i = (if i < length xs then Inr (xs ! i) else Inl IndexOutOfRange)"

subsection \<open>Helpers\<close>

definition is_left_side :: "zmk_env \<Rightarrow> bool" where
  "is_left_side env = (if CONFIG_ZMK_SPLIT_BLE_ROLE_PERIPHERAL env then False else True)"

text \<open>
  The body of \<^verbatim>\<open>update_mod_label\<close> between reading the modifiers and setting the label:
  the 32-byte buffer starts empty, takes one \<^verbatim>\<open>strcat\<close> for each modifier held on
  either hand, and takes the placeholder when it is still empty.
\<close>

definition mod_buf :: "zmk_env \<Rightarrow> u8 \<Rightarrow> fault + string" where
  "mod_buf env mods =
     bind_res (Inr []) (\<lambda>buf.
     bind_res (if mods AND MOD_LCTL env \<noteq> 0 \<or> mods AND MOD_RCTL env \<noteq> 0
               then strcat 32 buf ''Ctl '' else Inr buf) (\<lambda>buf.
     bind_res (if mods AND MOD_LALT env \<noteq> 0 \<or> mods AND MOD_RALT env \<noteq> 0
               then strcat 32 buf ''Alt '' else Inr buf) (\<lambda>buf.
     bind_res (if mods AND MOD_LSFT env \<noteq> 0 \<or> mods AND MOD_RSFT env \<noteq> 0
               then strcat 32 buf ''Sft '' else Inr buf) (\<lambda>buf.
     bind_res (if mods AND MOD_LGUI env \<noteq> 0 \<or> mods AND MOD_RGUI env \<noteq> 0
               then strcat 32 buf ''Gui '' else Inr buf) (\<lambda>buf.
     if strlen buf = 0 then strcpy 32 ''---'' else Inr buf)))))"

text \<open>\<open>mods\<close> is what \<^verbatim>\<open>zmk_hid_get_explicit_mods()\<close> returns at the call.\<close>

definition update_mod_label :: "zmk_env \<Rightarrow> u8 \<Rightarrow> screen \<Rightarrow> fault + screen" where
  "update_mod_label env mods s =
     (if mod_lbl s = None then Inr s
      else bind_res (mod_buf env mods) (\<lambda>buf. via_mod_lbl (lv_label_set_text buf) s))"

definition update_wpm :: "u8 \<Rightarrow> screen \<Rightarrow> fault + screen" where
  "update_wpm wpm s =
     (if wpm_val s = None \<or> wpm_bar s = None then Inr s
      else
        let buf = snprintf 8 (fmt_3d (unat wpm)) in
        bind_res (via_wpm_val (lv_label_set_text buf) s) (\<lambda>s.
        bind_res (via_wpm_bar (lv_bar_set_value (min (uint wpm) 200) LV_ANIM_ON) s) (\<lambda>s.
        let col = (if wpm < 60 then lv_color_make 0x00 0xFF 0x00
                   else if wpm < 100 then lv_color_make 0xFF 0xD0 0x00
                   else lv_color_make 0xFF 0x40 0x40)
        in via_wpm_bar (lv_obj_set_style_bg_color col LV_PART_INDICATOR) s)))"

subsection \<open>Screen builder\<close>

definition logo_dsc :: lv_img_dsc where
  "logo_dsc = \<lparr> cf = LV_IMG_CF_INDEXED_1BIT, w = 128, h = 32,
                data_size = length lily58_logo, data = lily58_logo \<rparr>"

definition build_left_screen :: "lv_obj \<Rightarrow> screen \<Rightarrow> fault + (lv_obj \<times> screen)" where
  "build_left_screen parent s =
     (let parent = lv_obj_set_style_bg_color lv_color_black LV_PART_MAIN parent in
      bind_res (Inr (s\<lparr>logo_img := Some (lv_img_create parent)\<rparr>)) (\<lambda>s.
      bind_res (via_logo_img (lv_img_set_src logo_dsc) s) (\<lambda>s.
      bind_res (via_logo_img (lv_obj_align LV_ALIGN_CENTER 0 0) s) (\<lambda>s.
      bind_res (Inr (s\<lparr>layer_lbl := Some (lv_label_create parent)\<rparr>)) (\<lambda>s.
      bind_res (via_layer_lbl (lv_obj_set_style_text_color lv_color_white) s) (\<lambda>s.
      bind_res (via_layer_lbl (lv_label_set_text ''LAYER: QWERTY'') s) (\<lambda>s.
      bind_res (via_layer_lbl (lv_obj_align LV_ALIGN_TOP_LEFT 2 2) s) (\<lambda>s.
      bind_res (via_layer_lbl (lv_obj_add_flag LV_OBJ_FLAG_HIDDEN) s) (\<lambda>s.
      bind_res (Inr (s\<lparr>mod_lbl := Some (lv_label_create parent)\<rparr>)) (\<lambda>s.
      bind_res (via_mod_lbl (lv_obj_set_style_text_color lv_color_white) s) (\<lambda>s.
      bind_res (via_mod_lbl (lv_label_set_text ''---'') s) (\<lambda>s.
      bind_res (via_mod_lbl (lv_obj_align LV_ALIGN_TOP_LEFT 2 16) s) (\<lambda>s.
      bind_res (via_mod_lbl (lv_obj_add_flag LV_OBJ_FLAG_HIDDEN) s) (\<lambda>s.
      Inr (parent, s)))))))))))))))"

text \<open>
  Modelled from the spec: \<^verbatim>\<open>build_right_screen\<close> is called by
  \<^verbatim>\<open>zmk_display_status_screen\<close> but is defined nowhere in the repository. The
  specification (4.2) gives the right half a header label, a numeric label and a
  bounded progress indicator with range [0,200], all visible from the start with
  zero or placeholder values.
\<close>

definition build_right_screen :: "lv_obj \<Rightarrow> screen \<Rightarrow> fault + (lv_obj \<times> screen)" where
  "build_right_screen parent s =
     bind_res (Inr (s\<lparr>wpm_lbl := Some (lv_label_create parent)\<rparr>)) (\<lambda>s.
     bind_res (via_wpm_lbl (lv_label_set_text ''WPM'') s) (\<lambda>s.
     bind_res (Inr (s\<lparr>wpm_val := Some (lv_label_create parent)\<rparr>)) (\<lambda>s.
     bind_res (via_wpm_val (lv_label_set_text (snprintf 8 (fmt_3d 0))) s) (\<lambda>s.
     bind_res (Inr (s\<lparr>wpm_bar := Some (lv_bar_create parent)\<rparr>)) (\<lambda>s.
     bind_res (via_wpm_bar (lv_bar_set_range 0 200) s) (\<lambda>s.
     bind_res (via_wpm_bar (lv_bar_set_value 0 LV_ANIM_OFF) s) (\<lambda>s.
     Inr (parent, s))))))))"

subsection \<open>ZMK display entry point\<close>

definition zmk_display_status_screen ::
  "zmk_env \<Rightarrow> lv_obj \<Rightarrow> screen \<Rightarrow> fault + ((lv_obj \<times> screen) \<times> int)" where
  "zmk_display_status_screen env parent s =
     bind_res (if is_left_side env then build_left_screen parent s
               else build_right_screen parent s) (\<lambda>r.
     Inr (r, 0))"

subsection \<open>Event listeners\<close>

text \<open>
  An event is one of the three kinds the listeners subscribe to; only the typing-speed
  event carries a payload the listeners read. Its structure is declared in a ZMK header
  that is not part of the repository; the payload is the value of \<^verbatim>\<open>ev->wpm\<close> as
  \<^verbatim>\<open>update_wpm\<close> receives it, in its \<^verbatim>\<open>uint8_t\<close> parameter. The layer and modifier
  listeners ask the host instead: \<open>highest_layer\<close> is what
  \<^verbatim>\<open>zmk_keymap_highest_layer_active()\<close> returns at the call, stored into the
  \<^verbatim>\<open>uint8_t idx\<close>, and \<open>explicit_mods\<close> is what \<^verbatim>\<open>zmk_hid_get_explicit_mods()\<close>
  returns.
\<close>

datatype zmk_event =
    zmk_layer_state_changed
  | zmk_modifiers_state_changed
  | zmk_wpm_state_changed u8

record host =
  highest_layer :: u8
  explicit_mods :: u8

definition as_zmk_wpm_state_changed :: "zmk_event \<Rightarrow> u8 option" where
  "as_zmk_wpm_state_changed eh = (case eh of zmk_wpm_state_changed wpm \<Rightarrow> Some wpm | _ \<Rightarrow> None)"

definition layer_event_handler :: "zmk_env \<Rightarrow> host \<Rightarrow> zmk_event \<Rightarrow> screen \<Rightarrow> fault + (screen \<times> int)" where
  "layer_event_handler env hst eh s =
     (if \<not> is_left_side env \<or> layer_lbl s = None then Inr (s, ZMK_EV_EVENT_BUBBLE env)
      else
        let idx = highest_layer hst in
        bind_res (if unat idx < NUM_LAYERS then array_read layer_names (unat idx)
                  else Inr ''???'') (\<lambda>name.
        let buf = snprintf 32 (''LAYER: '' @ name) in
        bind_res (via_layer_lbl (lv_label_set_text buf) s) (\<lambda>s.
        bind_res (if logo_img s \<noteq> None
                  then via_logo_img (lv_obj_add_flag LV_OBJ_FLAG_HIDDEN) s else Inr s) (\<lambda>s.
        bind_res (if layer_lbl s \<noteq> None
                  then via_layer_lbl (lv_obj_clear_flag LV_OBJ_FLAG_HIDDEN) s else Inr s) (\<lambda>s.
        bind_res (if mod_lbl s \<noteq> None
                  then via_mod_lbl (lv_obj_clear_flag LV_OBJ_FLAG_HIDDEN) s else Inr s) (\<lambda>s.
        Inr (s, ZMK_EV_EVENT_BUBBLE env)))))))"

definition mod_event_handler :: "zmk_env \<Rightarrow> host \<Rightarrow> zmk_event \<Rightarrow> screen \<Rightarrow> fault + (screen \<times> int)" where
  "mod_event_handler env hst eh s =
     (if \<not> is_left_side env then Inr (s, ZMK_EV_EVENT_BUBBLE env)
      else bind_res (update_mod_label env (explicit_mods hst) s) (\<lambda>s.
           Inr (s, ZMK_EV_EVENT_BUBBLE env)))"

definition wpm_event_handler :: "zmk_env \<Rightarrow> host \<Rightarrow> zmk_event \<Rightarrow> screen \<Rightarrow> fault + (screen \<times> int)" where
  "wpm_event_handler env hst eh s =
     (if is_left_side env then Inr (s, ZMK_EV_EVENT_BUBBLE env)
      else
        let ev = as_zmk_wpm_state_changed eh in
        bind_res (case ev of Some wpm \<Rightarrow> update_wpm wpm s | None \<Rightarrow> Inr s) (\<lambda>s.
        Inr (s, ZMK_EV_EVENT_BUBBLE env)))"

text \<open>A session after the build: any listener, called with any event and host state,
  any number of times. It stops at the first fault.\<close>

datatype listener = layer_status | mod_status | wpm_status

definition call_listener ::
  "zmk_env \<Rightarrow> listener \<times> host \<times> zmk_event \<Rightarrow> screen \<Rightarrow> fault + (screen \<times> int)" where
  "call_listener env c s =
     (case c of
        (layer_status, hst, eh) \<Rightarrow> layer_event_handler env hst eh s
      | (mod_status, hst, eh) \<Rightarrow> mod_event_handler env hst eh s
      | (wpm_status, hst, eh) \<Rightarrow> wpm_event_handler env hst eh s)"

fun run_listeners :: "zmk_env \<Rightarrow> (listener \<times> host \<times> zmk_event) list \<Rightarrow> screen \<Rightarrow> fault + screen" where
  "run_listeners env [] s = Inr s"
| "run_listeners env (c # cs) s =
     (case call_listener env c s of
        Inl e \<Rightarrow> Inl e
      | Inr (s', _) \<Rightarrow> run_listeners env cs s')"


section \<open>What the specification says\<close>

text \<open>
  The definitions of this section follow the words of the specification, not the code:
  they are what the code is compared with.
\<close>

subsection \<open>Modifiers\<close>

datatype modifier = Ctrl | Alt | Shift | Gui

fun abbrev :: "modifier \<Rightarrow> string" where
  "abbrev Ctrl = ''Ctl''"
| "abbrev Alt = ''Alt''"
| "abbrev Shift = ''Sft''"
| "abbrev Gui = ''Gui''"

fun left_mask :: "zmk_env \<Rightarrow> modifier \<Rightarrow> u8" where
  "left_mask env Ctrl = MOD_LCTL env"
| "left_mask env Alt = MOD_LALT env"
| "left_mask env Shift = MOD_LSFT env"
| "left_mask env Gui = MOD_LGUI env"

fun right_mask :: "zmk_env \<Rightarrow> modifier \<Rightarrow> u8" where
  "right_mask env Ctrl = MOD_RCTL env"
| "right_mask env Alt = MOD_RALT env"
| "right_mask env Shift = MOD_RSFT env"
| "right_mask env Gui = MOD_RGUI env"

text \<open>A modifier is set in a bitmask when its left-hand or its right-hand bit is.\<close>

definition mod_set :: "zmk_env \<Rightarrow> u8 \<Rightarrow> modifier \<Rightarrow> bool" where
  "mod_set env m md = (m AND left_mask env md \<noteq> 0 \<or> m AND right_mask env md \<noteq> 0)"

text \<open>The abbreviations of the modifiers set in a bitmask, in the fixed order.\<close>

definition held_abbrevs :: "zmk_env \<Rightarrow> u8 \<Rightarrow> string list" where
  "held_abbrevs env m = map abbrev (filter (mod_set env m) [Ctrl, Alt, Shift, Gui])"

text \<open>Each abbreviation followed by its separating space, or the placeholder.\<close>

definition mod_text :: "zmk_env \<Rightarrow> u8 \<Rightarrow> string" where
  "mod_text env m =
     (if held_abbrevs env m = [] then ''---''
      else concat (map (\<lambda>a. a @ '' '') (held_abbrevs env m)))"

subsection \<open>A number right-justified in a field\<close>

definition digit_val :: "char \<Rightarrow> nat" where
  "digit_val c = of_char c - 48"

definition read_d :: "string \<Rightarrow> nat" where
  "read_d ds = foldl (\<lambda>a c. 10 * a + digit_val c) 0 ds"

definition is_digit :: "char \<Rightarrow> bool" where
  "is_digit c = (c \<in> set ''0123456789'')"

text \<open>
  \<open>t\<close> shows \<open>n\<close> right-justified in a field of \<open>width\<close> characters: it has that
  length, and after its leading spaces comes the decimal numeral of \<open>n\<close>, with no
  leading zero.
\<close>

definition right_justified :: "nat \<Rightarrow> nat \<Rightarrow> string \<Rightarrow> bool" where
  "right_justified width n t =
     (length t = width \<and>
      (let ds = dropWhile (\<lambda>c. c = CHR '' '') t
       in ds \<noteq> [] \<and> list_all is_digit ds \<and> (hd ds = CHR ''0'' \<longrightarrow> ds = ''0'') \<and>
          read_d ds = n))"

subsection \<open>What the left half shows\<close>

datatype view = Logo | StatusLabels

text \<open>
  The left half shows the logo when the logo is visible and both status labels are
  hidden, and the status labels when both are visible and the logo is hidden. Anything
  else (a handle missing, the two groups both visible or both hidden, one label
  visible and the other hidden) is no view.
\<close>

definition left_view :: "screen \<Rightarrow> view option" where
  "left_view s =
     (case (logo_img s, layer_lbl s, mod_lbl s) of
        (Some lg, Some ll, Some ml) \<Rightarrow>
          if \<not> flag_hidden lg \<and> flag_hidden ll \<and> flag_hidden ml then Some Logo
          else if flag_hidden lg \<and> \<not> flag_hidden ll \<and> \<not> flag_hidden ml then Some StatusLabels
          else None
      | _ \<Rightarrow> None)"

section \<open>The code, step by step\<close>

subsection \<open>The modifier string\<close>

lemma mod_buf_eq: "mod_buf env m = Inr (mod_text env m)"
  by (simp add: mod_buf_def mod_text_def held_abbrevs_def mod_set_def bind_res_def
        strcat_def strcpy_def strlen_def)

lemma mod_text_length: "length (mod_text env m) \<le> 16"
  by (simp add: mod_text_def held_abbrevs_def)

lemma mod_text_sublist: "sublist (abbrev md) (mod_text env m) \<longleftrightarrow> mod_set env m md"
  by (cases md; cases "mod_set env m Ctrl"; cases "mod_set env m Alt";
      cases "mod_set env m Shift"; cases "mod_set env m Gui")
     (simp_all add: mod_text_def held_abbrevs_def sublist_code)

lemma mod_text_cong:
  assumes "\<And>md. mod_set env m md = mod_set env m' md"
  shows "mod_text env m = mod_text env m'"
proof -
  from assms have "mod_set env m = mod_set env m'" by (rule ext)
  then show ?thesis by (simp add: mod_text_def held_abbrevs_def)
qed

lemma update_mod_label_eq:
  "update_mod_label env m s =
     Inr (s\<lparr>mod_lbl := map_option (\<lambda>ob. ob\<lparr>label_text := mod_text env m\<rparr>) (mod_lbl s)\<rparr>)"
  by (cases "mod_lbl s")
     (simp_all add: update_mod_label_def mod_buf_eq bind_res_def via_mod_lbl_def
        lv_label_set_text_def)

lemma mod_handler_eq:
  "mod_event_handler env hst eh s =
     Inr (if is_left_side env
          then s\<lparr>mod_lbl := map_option
                   (\<lambda>ob. ob\<lparr>label_text := mod_text env (explicit_mods hst)\<rparr>) (mod_lbl s)\<rparr>
          else s, ZMK_EV_EVENT_BUBBLE env)"
  by (simp add: mod_event_handler_def update_mod_label_eq bind_res_def)

subsection \<open>The layer label\<close>

lemma layer_names_short: "i < 4 \<Longrightarrow> length (layer_names ! i) \<le> 6"
proof -
  assume "i < 4"
  then consider "i = 0" | "i = 1" | "i = 2" | "i = 3" by linarith
  then show ?thesis by cases (simp_all add: layer_names_def)
qed

lemma layer_handler_left:
  assumes "is_left_side env" and "layer_lbl s = Some l"
  shows "layer_event_handler env hst eh s =
           Inr (s\<lparr> logo_img := map_option (\<lambda>ob. ob\<lparr>flag_hidden := True\<rparr>) (logo_img s),
                   layer_lbl := Some (l\<lparr>flag_hidden := False,
                     label_text := (if unat (highest_layer hst) < 4
                                    then ''LAYER: '' @ layer_names ! unat (highest_layer hst)
                                    else ''LAYER: ???'')\<rparr>),
                   mod_lbl := map_option (\<lambda>ob. ob\<lparr>flag_hidden := False\<rparr>) (mod_lbl s) \<rparr>,
                ZMK_EV_EVENT_BUBBLE env)"
proof (cases "unat (highest_layer hst) < 4")
  case True
  then have "length (layer_names ! unat (highest_layer hst)) \<le> 6" by (rule layer_names_short)
  with True assms show ?thesis
    by (cases "logo_img s"; cases "mod_lbl s")
       (simp_all add: layer_event_handler_def NUM_LAYERS_def array_read_def
          bind_res_def snprintf_def via_layer_lbl_def via_logo_img_def via_mod_lbl_def
          lv_label_set_text_def lv_obj_add_flag_def lv_obj_clear_flag_def layer_names_def)
next
  case False
  with assms show ?thesis
    by (cases "logo_img s"; cases "mod_lbl s")
       (simp_all add: layer_event_handler_def NUM_LAYERS_def array_read_def
          bind_res_def snprintf_def via_layer_lbl_def via_logo_img_def via_mod_lbl_def
          lv_label_set_text_def lv_obj_add_flag_def lv_obj_clear_flag_def layer_names_def)
qed

lemma layer_handler_skip:
  "\<not> is_left_side env \<or> layer_lbl s = None \<Longrightarrow>
     layer_event_handler env hst eh s = Inr (s, ZMK_EV_EVENT_BUBBLE env)"
  by (auto simp add: layer_event_handler_def)

subsection \<open>Formatting the speed\<close>

lemma digit_cases:
  "d < 10 \<Longrightarrow>
     d = 0 \<or> d = 1 \<or> d = 2 \<or> d = 3 \<or> d = 4 \<or> d = 5 \<or> d = 6 \<or> d = 7 \<or> d = 8 \<or> d = (9::nat)"
  by arith

lemma digit_char_props:
  assumes "d < 10"
  shows "is_digit (digit_char d)" and "digit_val (digit_char d) = d"
    and "digit_char d \<noteq> CHR '' ''" and "digit_char d = CHR ''0'' \<longleftrightarrow> d = 0"
  using digit_cases [OF assms] by (auto simp add: digit_char_def is_digit_def digit_val_def)

lemma fmt_d_small: "n < 10 \<Longrightarrow> fmt_d n = [digit_char n]"
  by (subst fmt_d.simps) simp

lemma fmt_d_step: "10 \<le> n \<Longrightarrow> fmt_d n = fmt_d (n div 10) @ [digit_char (n mod 10)]"
  by (subst fmt_d.simps) simp

lemma fmt_d_nonempty: "fmt_d n \<noteq> []"
  by (subst fmt_d.simps) simp

lemma fmt_d_digits: "list_all is_digit (fmt_d n)"
proof (induction n rule: fmt_d.induct)
  case (1 n)
  show ?case
  proof (cases "n < 10")
    case True
    then show ?thesis by (simp add: fmt_d_small digit_char_props)
  next
    case False
    with 1 show ?thesis by (simp add: fmt_d_step digit_char_props)
  qed
qed

lemma read_d_snoc: "read_d (ds @ [c]) = 10 * read_d ds + digit_val c"
  by (simp add: read_d_def)

lemma read_fmt_d: "read_d (fmt_d n) = n"
proof (induction n rule: fmt_d.induct)
  case (1 n)
  show ?case
  proof (cases "n < 10")
    case True
    then show ?thesis by (simp add: fmt_d_small read_d_def digit_char_props)
  next
    case False
    with 1 show ?thesis by (simp add: fmt_d_step read_d_snoc digit_char_props)
  qed
qed

lemma fmt_d_no_leading_zero: "hd (fmt_d n) = CHR ''0'' \<Longrightarrow> n = 0"
proof (induction n rule: fmt_d.induct)
  case (1 n)
  show ?case
  proof (cases "n < 10")
    case True
    with 1(2) show ?thesis by (simp add: fmt_d_small digit_char_props)
  next
    case False
    with 1(2) have "hd (fmt_d (n div 10)) = CHR ''0''"
      by (simp add: fmt_d_step fmt_d_nonempty)
    with 1(1) False have "n div 10 = 0" by simp
    with False show ?thesis by simp
  qed
qed

lemma fmt_d_hd_not_space: "hd (fmt_d n) \<noteq> CHR '' ''"
proof (induction n rule: fmt_d.induct)
  case (1 n)
  show ?case
  proof (cases "n < 10")
    case True
    then show ?thesis by (simp add: fmt_d_small digit_char_props)
  next
    case False
    with 1 show ?thesis by (simp add: fmt_d_step fmt_d_nonempty)
  qed
qed

lemma fmt_d_length: "n < 1000 \<Longrightarrow> length (fmt_d n) \<le> 3"
proof -
  assume n: "n < 1000"
  show ?thesis
  proof (cases "n < 10")
    case True
    then show ?thesis by (simp add: fmt_d_small)
  next
    case False
    note n10 = this
    show ?thesis
    proof (cases "n div 10 < 10")
      case True
      with n10 show ?thesis by (simp add: fmt_d_step fmt_d_small)
    next
      case False
      moreover from n have "n div 10 div 10 < 10" by simp
      ultimately show ?thesis using n10 by (simp add: fmt_d_step fmt_d_small)
    qed
  qed
qed

lemma fmt_3d_length: "n < 1000 \<Longrightarrow> length (fmt_3d n) = 3"
  using fmt_d_length [of n] by (simp add: fmt_3d_def)

lemma dropWhile_spaces_fmt_d:
  "dropWhile (\<lambda>c. c = CHR '' '') (replicate k CHR '' '' @ fmt_d n) = fmt_d n"
proof -
  have "dropWhile (\<lambda>c. c = CHR '' '') (fmt_d n) = fmt_d n"
    using fmt_d_hd_not_space [of n] fmt_d_nonempty [of n]
    by (cases "fmt_d n") simp_all
  then show ?thesis by (induction k) simp_all
qed

lemma fmt_3d_right_justified: "n < 1000 \<Longrightarrow> right_justified 3 n (fmt_3d n)"
proof -
  assume n: "n < 1000"
  have z: "hd (fmt_d n) = CHR ''0'' \<longrightarrow> fmt_d n = ''0''"
  proof
    assume "hd (fmt_d n) = CHR ''0''"
    then have "n = 0" by (rule fmt_d_no_leading_zero)
    then show "fmt_d n = ''0''" by (simp add: fmt_d_small digit_char_def)
  qed
  have "dropWhile (\<lambda>c. c = CHR '' '') (fmt_3d n) = fmt_d n"
    unfolding fmt_3d_def by (rule dropWhile_spaces_fmt_d)
  with z show ?thesis
    by (simp add: right_justified_def fmt_3d_length [OF n] fmt_d_nonempty fmt_d_digits read_fmt_d)
qed

subsection \<open>The speed display\<close>

lemma update_wpm_eq:
  assumes "wpm_val s = Some lv" and "wpm_bar s = Some b"
  shows "update_wpm v s =
           Inr (s\<lparr> wpm_val := Some (lv\<lparr>label_text := fmt_3d (unat v)\<rparr>),
                   wpm_bar := Some (b\<lparr>bar_value := min (uint v) 200, bar_anim := LV_ANIM_ON,
                     bg_color_indicator := Some
                       (if unat v < 60 then lv_color_make 0x00 0xFF 0x00
                        else if unat v < 100 then lv_color_make 0xFF 0xD0 0x00
                        else lv_color_make 0xFF 0x40 0x40)\<rparr>) \<rparr>)"
proof -
  have "unat v < 1000" using unsigned_less [of v, where ?'a = nat] by simp
  then have "length (fmt_3d (unat v)) = 3" by (rule fmt_3d_length)
  then have t: "snprintf 8 (fmt_3d (unat v)) = fmt_3d (unat v)" by (simp add: snprintf_def)
  have c: "(v < 60) = (unat v < 60)" "(v < 100) = (unat v < 100)"
    by (simp_all add: word_less_nat_alt)
  from assms show ?thesis
    by (simp add: update_wpm_def t c bind_res_def via_wpm_val_def via_wpm_bar_def
          lv_label_set_text_def lv_bar_set_value_def lv_obj_set_style_bg_color_def Let_def)
qed

lemma update_wpm_skip: "wpm_val s = None \<or> wpm_bar s = None \<Longrightarrow> update_wpm v s = Inr s"
  by (auto simp add: update_wpm_def)

lemma update_wpm_total: "\<exists>s'. update_wpm v s = Inr s'"
  by (cases "wpm_val s"; cases "wpm_bar s") (simp_all add: update_wpm_skip update_wpm_eq)

lemma wpm_handler_left:
  "is_left_side env \<Longrightarrow> wpm_event_handler env hst eh s = Inr (s, ZMK_EV_EVENT_BUBBLE env)"
  by (simp add: wpm_event_handler_def)

lemma wpm_handler_right:
  "\<not> is_left_side env \<Longrightarrow>
     wpm_event_handler env hst eh s =
       (case eh of
          zmk_wpm_state_changed v \<Rightarrow>
            bind_res (update_wpm v s) (\<lambda>s'. Inr (s', ZMK_EV_EVENT_BUBBLE env))
        | _ \<Rightarrow> Inr (s, ZMK_EV_EVENT_BUBBLE env))"
  by (cases eh) (simp_all add: wpm_event_handler_def as_zmk_wpm_state_changed_def bind_res_def)

subsection \<open>The builders\<close>

lemma build_left:
  "build_left_screen parent s =
     Inr (parent\<lparr>bg_color_main := Some lv_color_black\<rparr>,
          s\<lparr>logo_img := Some ((lv_obj_create lv_img_class)
                \<lparr>img_src := Some logo_dsc, align := Some (LV_ALIGN_CENTER, 0, 0)\<rparr>),
            layer_lbl := Some ((lv_obj_create lv_label_class)
                \<lparr>flag_hidden := True, label_text := ''LAYER: QWERTY'',
                 text_color := Some lv_color_white, align := Some (LV_ALIGN_TOP_LEFT, 2, 2)\<rparr>),
            mod_lbl := Some ((lv_obj_create lv_label_class)
                \<lparr>flag_hidden := True, label_text := ''---'',
                 text_color := Some lv_color_white, align := Some (LV_ALIGN_TOP_LEFT, 2, 16)\<rparr>)\<rparr>)"
  by (simp add: build_left_screen_def bind_res_def via_logo_img_def via_layer_lbl_def
        via_mod_lbl_def lv_obj_set_style_bg_color_def lv_img_create_def lv_label_create_def
        lv_img_set_src_def lv_obj_align_def lv_obj_set_style_text_color_def
        lv_label_set_text_def lv_obj_add_flag_def)

lemma build_right: "\<exists>s'. build_right_screen parent s = Inr (parent, s')"
  by (simp add: build_right_screen_def bind_res_def via_wpm_lbl_def via_wpm_val_def
        via_wpm_bar_def)

lemma central_is_left: "is_left_side zmk_central"
  by (simp add: is_left_side_def zmk_central_def)

lemma peripheral_is_right: "\<not> is_left_side zmk_peripheral"
  by (simp add: is_left_side_def zmk_peripheral_def)

subsection \<open>The view of the left half under the listeners\<close>

lemma left_view_handles:
  assumes "left_view s \<noteq> None"
  obtains lg ll ml where "logo_img s = Some lg" "layer_lbl s = Some ll" "mod_lbl s = Some ml"
  using assms by (auto simp add: left_view_def split: option.splits)

lemma left_view_layer:
  assumes "is_left_side env" and "left_view s \<noteq> None"
  shows "\<exists>s'. layer_event_handler env hst eh s = Inr (s', ZMK_EV_EVENT_BUBBLE env) \<and>
              left_view s' = Some StatusLabels"
proof -
  from assms(2) obtain lg ll ml
    where h: "logo_img s = Some lg" "layer_lbl s = Some ll" "mod_lbl s = Some ml"
    by (rule left_view_handles)
  show ?thesis
    by (simp add: layer_handler_left [OF assms(1) h(2)] h left_view_def)
qed

lemma left_view_mod:
  "\<exists>s'. mod_event_handler env hst eh s = Inr (s', ZMK_EV_EVENT_BUBBLE env) \<and>
        left_view s' = left_view s"
  by (cases "logo_img s"; cases "layer_lbl s"; cases "mod_lbl s")
     (simp_all add: mod_handler_eq left_view_def)

lemma call_listener_view:
  assumes "is_left_side env" and "left_view s \<noteq> None"
  shows "\<exists>s' rc. call_listener env (l, hst, eh) s = Inr (s', rc) \<and>
           left_view s' = (if l = layer_status then Some StatusLabels else left_view s)"
proof (cases l)
  case layer_status
  with left_view_layer [OF assms, of hst eh] show ?thesis
    by (auto simp add: call_listener_def)
next
  case mod_status
  with left_view_mod [of env hst eh s] show ?thesis
    by (auto simp add: call_listener_def)
next
  case wpm_status
  with wpm_handler_left [OF assms(1), of hst eh s] show ?thesis
    by (simp add: call_listener_def)
qed

lemma run_listeners_view:
  assumes "is_left_side env"
  shows "left_view s \<noteq> None \<Longrightarrow>
     \<exists>s'. run_listeners env calls s = Inr s' \<and>
          left_view s' =
            (if layer_status \<in> fst ` set calls then Some StatusLabels else left_view s)"
proof (induction calls arbitrary: s)
  case Nil
  then show ?case by simp
next
  case (Cons c calls)
  obtain l hst eh where c: "c = (l, hst, eh)" by (cases c)
  from call_listener_view [OF assms Cons.prems, of l hst eh]
  obtain s1 rc where s1: "call_listener env c s = Inr (s1, rc)"
    and v1: "left_view s1 = (if l = layer_status then Some StatusLabels else left_view s)"
    unfolding c by blast
  from v1 Cons.prems have "left_view s1 \<noteq> None" by (simp split: if_splits)
  from Cons.IH [OF this] obtain s' where s': "run_listeners env calls s1 = Inr s'"
    and v': "left_view s' =
               (if layer_status \<in> fst ` set calls then Some StatusLabels else left_view s1)"
    by blast
  from s1 s' have "run_listeners env (c # calls) s = Inr s'" by simp
  moreover from v1 v' c
  have "left_view s' =
          (if layer_status \<in> fst ` set (c # calls) then Some StatusLabels else left_view s)"
    by auto
  ultimately show ?case by blast
qed


section \<open>The claims\<close>

text \<open>
  C1. On the left half, once the screen shows one of its two views, every sequence of
  listener calls (layer, modifier or speed, with any event and any host state) runs
  without a fault and leaves exactly one of the two views showing. If the sequence
  holds a call of the layer listener, the logo is hidden and both status labels are
  visible at its end, whatever came after that call; if it holds none, the view is
  the one it started with. Every prefix of a sequence is a sequence, so this holds at
  every point of a session.
\<close>

theorem left_view_one_way:
  assumes "is_left_side env" and "left_view s \<noteq> None"
  shows "\<exists>s'. run_listeners env calls s = Inr s' \<and> left_view s' \<noteq> None \<and>
              left_view s' =
                (if layer_status \<in> fst ` set calls then Some StatusLabels else left_view s)"
proof -
  from run_listeners_view [OF assms, of calls] obtain s'
    where r: "run_listeners env calls s = Inr s'"
      and v: "left_view s' =
                (if layer_status \<in> fst ` set calls then Some StatusLabels else left_view s)"
    by blast
  from v assms(2) have "left_view s' \<noteq> None" by (simp split: if_splits)
  with r v show ?thesis by blast
qed

theorem left_view_one_way_witness:
  "\<exists>p s. zmk_display_status_screen zmk_central (lv_obj_create lv_obj_class) screen_init
            = Inr ((p, s), 0) \<and>
          is_left_side zmk_central \<and> left_view s = Some Logo \<and>
          (\<exists>s'. run_listeners zmk_central
                   [(mod_status, \<lparr>highest_layer = 0, explicit_mods = 0x02\<rparr>, zmk_modifiers_state_changed),
                    (layer_status, \<lparr>highest_layer = 1, explicit_mods = 0\<rparr>, zmk_layer_state_changed),
                    (wpm_status, \<lparr>highest_layer = 1, explicit_mods = 0\<rparr>, zmk_wpm_state_changed 87),
                    (layer_status, \<lparr>highest_layer = 0, explicit_mods = 0\<rparr>, zmk_layer_state_changed),
                    (mod_status, \<lparr>highest_layer = 0, explicit_mods = 0\<rparr>, zmk_modifiers_state_changed)] s
                 = Inr s' \<and> left_view s' = Some StatusLabels)"
proof -
  obtain p s where b: "build_left_screen (lv_obj_create lv_obj_class) screen_init = Inr (p, s)"
    and v: "left_view s = Some Logo"
    by (simp add: build_left left_view_def lv_obj_create_def)
  from b have z: "zmk_display_status_screen zmk_central (lv_obj_create lv_obj_class) screen_init
                    = Inr ((p, s), 0)"
    by (simp add: zmk_display_status_screen_def central_is_left bind_res_def)
  from v have n: "left_view s \<noteq> None" by simp
  let ?calls = "[(mod_status, \<lparr>highest_layer = 0, explicit_mods = 0x02\<rparr>, zmk_modifiers_state_changed),
                 (layer_status, \<lparr>highest_layer = 1, explicit_mods = 0\<rparr>, zmk_layer_state_changed),
                 (wpm_status, \<lparr>highest_layer = 1, explicit_mods = 0\<rparr>, zmk_wpm_state_changed 87),
                 (layer_status, \<lparr>highest_layer = 0, explicit_mods = 0\<rparr>, zmk_layer_state_changed),
                 (mod_status, \<lparr>highest_layer = 0, explicit_mods = 0\<rparr>, zmk_modifiers_state_changed)]"
  have "\<exists>s'. run_listeners zmk_central ?calls s = Inr s' \<and> left_view s' = Some StatusLabels"
    using left_view_one_way [OF central_is_left n, of ?calls]
    by (simp del: run_listeners.simps) blast
  with z v central_is_left show ?thesis by blast
qed

text \<open>
  C2. On the left half with a layer label, the layer listener returns without a fault
  and leaves the label reading "LAYER: " followed by the table entry of the highest
  active layer when that index is below the number of entries, which is 4, and
  "LAYER: ???" otherwise.
\<close>

theorem layer_label_text:
  assumes "is_left_side env" and "layer_lbl s = Some l"
  shows "NUM_LAYERS = 4 \<and>
         (\<exists>s' l'. layer_event_handler env hst eh s = Inr (s', ZMK_EV_EVENT_BUBBLE env) \<and>
                  layer_lbl s' = Some l' \<and>
                  label_text l' =
                    (if unat (highest_layer hst) < NUM_LAYERS
                     then ''LAYER: '' @ layer_names ! unat (highest_layer hst)
                     else ''LAYER: ???''))"
  by (simp add: layer_handler_left [OF assms] NUM_LAYERS_def layer_names_def)

theorem layer_label_text_witness:
  "is_left_side zmk_central \<and>
   layer_lbl (screen_init\<lparr>layer_lbl := Some (lv_obj_create lv_label_class)\<rparr>)
     = Some (lv_obj_create lv_label_class) \<and>
   (\<exists>s' l'. layer_event_handler zmk_central \<lparr>highest_layer = 2, explicit_mods = 0\<rparr>
               zmk_layer_state_changed
               (screen_init\<lparr>layer_lbl := Some (lv_obj_create lv_label_class)\<rparr>) = Inr (s', 0) \<and>
            layer_lbl s' = Some l' \<and> label_text l' = ''LAYER: SYM'') \<and>
   (\<exists>s' l'. layer_event_handler zmk_central \<lparr>highest_layer = 4, explicit_mods = 0\<rparr>
               zmk_layer_state_changed
               (screen_init\<lparr>layer_lbl := Some (lv_obj_create lv_label_class)\<rparr>) = Inr (s', 0) \<and>
            layer_lbl s' = Some l' \<and> label_text l' = ''LAYER: ???'')"
proof -
  let ?s = "screen_init\<lparr>layer_lbl := Some (lv_obj_create lv_label_class)\<rparr>"
  have h: "layer_lbl ?s = Some (lv_obj_create lv_label_class)" by simp
  have b: "ZMK_EV_EVENT_BUBBLE zmk_central = 0" by (simp add: zmk_central_def)
  show ?thesis
    using central_is_left h
      layer_label_text [OF central_is_left h, of "\<lparr>highest_layer = 2, explicit_mods = 0\<rparr>" zmk_layer_state_changed]
      layer_label_text [OF central_is_left h, of "\<lparr>highest_layer = 4, explicit_mods = 0\<rparr>" zmk_layer_state_changed]
    by (simp add: b layer_names_def NUM_LAYERS_def)
qed

text \<open>
  C3. On the left half with a modifier label, the modifier listener changes nothing
  but the text of that label, which becomes the abbreviations of the modifiers set in
  the bitmask, in the order Ctl, Alt, Sft, Gui, each followed by one space, and
  exactly "---" when none of the four is set.
\<close>

theorem mod_label_text:
  assumes "is_left_side env" and "mod_lbl s = Some l"
  shows "mod_event_handler env hst eh s =
           Inr (s\<lparr>mod_lbl := Some (l\<lparr>label_text :=
                    (if held_abbrevs env (explicit_mods hst) = [] then ''---''
                     else concat (map (\<lambda>a. a @ '' '') (held_abbrevs env (explicit_mods hst))))\<rparr>)\<rparr>,
                ZMK_EV_EVENT_BUBBLE env) \<and>
         (held_abbrevs env (explicit_mods hst) = []
            \<longleftrightarrow> (\<forall>md. \<not> mod_set env (explicit_mods hst) md))"
proof -
  have "held_abbrevs env (explicit_mods hst) = [] \<longleftrightarrow> (\<forall>md. \<not> mod_set env (explicit_mods hst) md)"
  proof
    assume "\<forall>md. \<not> mod_set env (explicit_mods hst) md"
    then show "held_abbrevs env (explicit_mods hst) = []" by (simp add: held_abbrevs_def)
  next
    assume e: "held_abbrevs env (explicit_mods hst) = []"
    show "\<forall>md. \<not> mod_set env (explicit_mods hst) md"
    proof
      fix md
      from e show "\<not> mod_set env (explicit_mods hst) md"
        by (cases md) (auto simp add: held_abbrevs_def split: if_splits)
    qed
  qed
  with assms show ?thesis
    by (simp add: mod_handler_eq mod_text_def)
qed

theorem mod_label_text_witness:
  "is_left_side zmk_central \<and>
   mod_lbl (screen_init\<lparr>mod_lbl := Some (lv_obj_create lv_label_class)\<rparr>)
     = Some (lv_obj_create lv_label_class) \<and>
   mod_event_handler zmk_central \<lparr>highest_layer = 0, explicit_mods = 0x21\<rparr>
     zmk_modifiers_state_changed (screen_init\<lparr>mod_lbl := Some (lv_obj_create lv_label_class)\<rparr>)
     = Inr (screen_init\<lparr>mod_lbl := Some ((lv_obj_create lv_label_class)\<lparr>label_text := ''Ctl Sft ''\<rparr>)\<rparr>, 0) \<and>
   mod_event_handler zmk_central \<lparr>highest_layer = 0, explicit_mods = 0\<rparr>
     zmk_modifiers_state_changed (screen_init\<lparr>mod_lbl := Some (lv_obj_create lv_label_class)\<rparr>)
     = Inr (screen_init\<lparr>mod_lbl := Some ((lv_obj_create lv_label_class)\<lparr>label_text := ''---''\<rparr>)\<rparr>, 0)"
proof -
  let ?s = "screen_init\<lparr>mod_lbl := Some (lv_obj_create lv_label_class)\<rparr>"
  have h: "mod_lbl ?s = Some (lv_obj_create lv_label_class)" by simp
  have b: "ZMK_EV_EVENT_BUBBLE zmk_central = 0" by (simp add: zmk_central_def)
  have m: "\<And>md. mod_set zmk_central 0x21 md = (md = Ctrl \<or> md = Shift)"
          "\<And>md. mod_set zmk_central 0 md = False"
    subgoal for md by (cases md) (simp_all add: mod_set_def zmk_central_def)
    subgoal for md by (cases md) (simp_all add: mod_set_def zmk_central_def)
    done
  show ?thesis
    using central_is_left h
      mod_label_text [OF central_is_left h, of "\<lparr>highest_layer = 0, explicit_mods = 0x21\<rparr>" zmk_modifiers_state_changed]
      mod_label_text [OF central_is_left h, of "\<lparr>highest_layer = 0, explicit_mods = 0\<rparr>" zmk_modifiers_state_changed]
    by (simp add: b m held_abbrevs_def)
qed

text \<open>
  C4. On the right half with a numeric label and a bar, the speed listener called with
  the speed \<open>v\<close> gives the bar the value \<open>min v 200\<close>, fills it green below 60,
  yellow from 60 and below 100, and red from 100, and leaves the numeric label showing
  \<open>v\<close> right-justified in three characters.
\<close>

theorem wpm_display:
  assumes "\<not> is_left_side env" and "wpm_val s = Some lv" and "wpm_bar s = Some b"
  shows "\<exists>s' lv' b'.
           wpm_event_handler env hst (zmk_wpm_state_changed v) s
             = Inr (s', ZMK_EV_EVENT_BUBBLE env) \<and>
           wpm_val s' = Some lv' \<and> wpm_bar s' = Some b' \<and>
           bar_value b' = min (uint v) 200 \<and>
           bg_color_indicator b' =
             Some (if unat v < 60 then lv_color_make 0x00 0xFF 0x00
                   else if unat v < 100 then lv_color_make 0xFF 0xD0 0x00
                   else lv_color_make 0xFF 0x40 0x40) \<and>
           right_justified 3 (unat v) (label_text lv')"
proof -
  have "unat v < 1000" using unsigned_less [of v, where ?'a = nat] by simp
  then have "right_justified 3 (unat v) (fmt_3d (unat v))" by (rule fmt_3d_right_justified)
  then show ?thesis
    by (simp add: wpm_handler_right [OF assms(1)] update_wpm_eq [OF assms(2,3)] bind_res_def)
qed

theorem wpm_display_witness:
  "\<not> is_left_side zmk_peripheral \<and>
   (\<exists>p s lv b. zmk_display_status_screen zmk_peripheral (lv_obj_create lv_obj_class) screen_init
                  = Inr ((p, s), 0) \<and> wpm_val s = Some lv \<and> wpm_bar s = Some b \<and>
      (\<exists>s' lv' b'.
           wpm_event_handler zmk_peripheral \<lparr>highest_layer = 0, explicit_mods = 0\<rparr>
             (zmk_wpm_state_changed 250) s = Inr (s', 0) \<and>
           wpm_val s' = Some lv' \<and> wpm_bar s' = Some b' \<and>
           bar_value b' = 200 \<and>
           bg_color_indicator b' = Some (lv_color_make 0xFF 0x40 0x40) \<and>
           right_justified 3 250 (label_text lv')))"
proof -
  obtain p s lv b where
    z: "zmk_display_status_screen zmk_peripheral (lv_obj_create lv_obj_class) screen_init
          = Inr ((p, s), 0)"
    and h: "wpm_val s = Some lv" "wpm_bar s = Some b"
    by (simp add: zmk_display_status_screen_def peripheral_is_right build_right_screen_def
          bind_res_def via_wpm_lbl_def via_wpm_val_def via_wpm_bar_def)
  have bub: "ZMK_EV_EVENT_BUBBLE zmk_peripheral = 0" by (simp add: zmk_peripheral_def zmk_central_def)
  have "\<exists>s' lv' b'.
           wpm_event_handler zmk_peripheral \<lparr>highest_layer = 0, explicit_mods = 0\<rparr>
             (zmk_wpm_state_changed 250) s = Inr (s', 0) \<and>
           wpm_val s' = Some lv' \<and> wpm_bar s' = Some b' \<and>
           bar_value b' = 200 \<and>
           bg_color_indicator b' = Some (lv_color_make 0xFF 0x40 0x40) \<and>
           right_justified 3 250 (label_text lv')"
    using wpm_display [OF peripheral_is_right h, of "\<lparr>highest_layer = 0, explicit_mods = 0\<rparr>" 250]
    by (simp add: bub)
  with z h peripheral_is_right show ?thesis by blast
qed

text \<open>
  C5. On a half that is not the left one, the layer listener and the modifier listener
  return the propagation signal and leave every handle and every object as it was; on
  a half that is not the right one, so does the speed listener.
\<close>

theorem side_gating:
  "(\<not> is_left_side env \<longrightarrow>
      layer_event_handler env hst eh s = Inr (s, ZMK_EV_EVENT_BUBBLE env) \<and>
      mod_event_handler env hst eh s = Inr (s, ZMK_EV_EVENT_BUBBLE env)) \<and>
   (is_left_side env \<longrightarrow>
      wpm_event_handler env hst eh s = Inr (s, ZMK_EV_EVENT_BUBBLE env))"
  by (simp add: layer_handler_skip mod_handler_eq wpm_handler_left)

theorem side_gating_witness:
  "\<exists>pl sl pr sr.
     zmk_display_status_screen zmk_central (lv_obj_create lv_obj_class) screen_init
       = Inr ((pl, sl), 0) \<and> layer_lbl sl \<noteq> None \<and> mod_lbl sl \<noteq> None \<and>
     zmk_display_status_screen zmk_peripheral (lv_obj_create lv_obj_class) screen_init
       = Inr ((pr, sr), 0) \<and> wpm_val sr \<noteq> None \<and> wpm_bar sr \<noteq> None \<and>
     \<not> is_left_side zmk_peripheral \<and>
     layer_event_handler zmk_peripheral \<lparr>highest_layer = 1, explicit_mods = 0x01\<rparr>
       zmk_layer_state_changed sl = Inr (sl, 0) \<and>
     mod_event_handler zmk_peripheral \<lparr>highest_layer = 1, explicit_mods = 0x01\<rparr>
       zmk_modifiers_state_changed sl = Inr (sl, 0) \<and>
     is_left_side zmk_central \<and>
     wpm_event_handler zmk_central \<lparr>highest_layer = 1, explicit_mods = 0x01\<rparr>
       (zmk_wpm_state_changed 87) sr = Inr (sr, 0)"
proof -
  obtain pl sl where l: "zmk_display_status_screen zmk_central (lv_obj_create lv_obj_class) screen_init
       = Inr ((pl, sl), 0)" "layer_lbl sl \<noteq> None" "mod_lbl sl \<noteq> None"
    by (simp add: zmk_display_status_screen_def central_is_left build_left bind_res_def)
  obtain pr sr where r: "zmk_display_status_screen zmk_peripheral (lv_obj_create lv_obj_class) screen_init
       = Inr ((pr, sr), 0)" "wpm_val sr \<noteq> None" "wpm_bar sr \<noteq> None"
    by (simp add: zmk_display_status_screen_def peripheral_is_right build_right_screen_def
          bind_res_def via_wpm_lbl_def via_wpm_val_def via_wpm_bar_def)
  have b: "ZMK_EV_EVENT_BUBBLE zmk_peripheral = 0" "ZMK_EV_EVENT_BUBBLE zmk_central = 0"
    by (simp_all add: zmk_peripheral_def zmk_central_def)
  have "layer_event_handler zmk_peripheral \<lparr>highest_layer = 1, explicit_mods = 0x01\<rparr>
          zmk_layer_state_changed sl = Inr (sl, 0) \<and>
        mod_event_handler zmk_peripheral \<lparr>highest_layer = 1, explicit_mods = 0x01\<rparr>
          zmk_modifiers_state_changed sl = Inr (sl, 0)"
    using side_gating [of zmk_peripheral "\<lparr>highest_layer = 1, explicit_mods = 0x01\<rparr>" _ sl]
      peripheral_is_right
    by (simp add: b)
  moreover
  have "wpm_event_handler zmk_central \<lparr>highest_layer = 1, explicit_mods = 0x01\<rparr>
          (zmk_wpm_state_changed 87) sr = Inr (sr, 0)"
    using side_gating [of zmk_central "\<lparr>highest_layer = 1, explicit_mods = 0x01\<rparr>"
        "zmk_wpm_state_changed 87" sr] central_is_left
    by (simp add: b)
  ultimately show ?thesis using l r central_is_left peripheral_is_right by blast
qed

text \<open>
  C6. Building the status screen returns status 0 on either half, without a fault. On
  the left half it leaves the logo image created and visible, and the layer label and
  the modifier label created, hidden and reading "LAYER: QWERTY" and "---", so that
  the left half shows the logo and nothing else.
\<close>

theorem status_screen_build:
  "\<exists>parent' s'.
     zmk_display_status_screen env parent s = Inr ((parent', s'), 0) \<and>
     (is_left_side env \<longrightarrow>
        (\<exists>lg ll ml.
           logo_img s' = Some lg \<and> layer_lbl s' = Some ll \<and> mod_lbl s' = Some ml \<and>
           class_p lg = lv_img_class \<and> img_src lg = Some logo_dsc \<and> \<not> flag_hidden lg \<and>
           class_p ll = lv_label_class \<and> flag_hidden ll \<and> label_text ll = ''LAYER: QWERTY'' \<and>
           class_p ml = lv_label_class \<and> flag_hidden ml \<and> label_text ml = ''---'') \<and>
        left_view s' = Some Logo)"
proof (cases "is_left_side env")
  case True
  then show ?thesis
    by (simp add: zmk_display_status_screen_def build_left bind_res_def left_view_def
          lv_obj_create_def)
next
  case False
  from build_right [of parent s] obtain s' where "build_right_screen parent s = Inr (parent, s')"
    by blast
  with False show ?thesis
    by (simp add: zmk_display_status_screen_def bind_res_def)
qed

theorem status_screen_build_witness:
  "is_left_side zmk_central \<and> \<not> is_left_side zmk_peripheral \<and>
   (\<exists>parent' s'.
     zmk_display_status_screen zmk_central (lv_obj_create lv_obj_class) screen_init
       = Inr ((parent', s'), 0) \<and>
     (\<exists>lg ll ml.
           logo_img s' = Some lg \<and> layer_lbl s' = Some ll \<and> mod_lbl s' = Some ml \<and>
           class_p lg = lv_img_class \<and> img_src lg = Some logo_dsc \<and> \<not> flag_hidden lg \<and>
           class_p ll = lv_label_class \<and> flag_hidden ll \<and> label_text ll = ''LAYER: QWERTY'' \<and>
           class_p ml = lv_label_class \<and> flag_hidden ml \<and> label_text ml = ''---'') \<and>
     left_view s' = Some Logo) \<and>
   (\<exists>parent' s'.
     zmk_display_status_screen zmk_peripheral (lv_obj_create lv_obj_class) screen_init
       = Inr ((parent', s'), 0))"
  using status_screen_build [of zmk_central "lv_obj_create lv_obj_class" screen_init]
    status_screen_build [of zmk_peripheral "lv_obj_create lv_obj_class" screen_init]
    central_is_left peripheral_is_right
  by simp

text \<open>
  C7. With the layer label missing the layer listener changes nothing; with the
  modifier label missing the modifier updater changes nothing; with the numeric label
  or the bar missing the speed updater changes nothing. None of them faults, and the
  listeners still return the propagation signal.
\<close>

theorem null_handle_noop:
  "(layer_lbl s = None \<longrightarrow>
      layer_event_handler env hst eh s = Inr (s, ZMK_EV_EVENT_BUBBLE env)) \<and>
   (mod_lbl s = None \<longrightarrow>
      update_mod_label env m s = Inr s \<and>
      mod_event_handler env hst eh s = Inr (s, ZMK_EV_EVENT_BUBBLE env)) \<and>
   (wpm_val s = None \<or> wpm_bar s = None \<longrightarrow>
      update_wpm v s = Inr s \<and>
      wpm_event_handler env hst (zmk_wpm_state_changed v) s = Inr (s, ZMK_EV_EVENT_BUBBLE env))"
proof -
  have "wpm_val s = None \<or> wpm_bar s = None \<Longrightarrow>
          wpm_event_handler env hst (zmk_wpm_state_changed v) s = Inr (s, ZMK_EV_EVENT_BUBBLE env)"
    by (cases "is_left_side env")
       (simp_all add: wpm_handler_left wpm_handler_right update_wpm_skip bind_res_def)
  then show ?thesis
    by (simp add: layer_handler_skip update_mod_label_eq mod_handler_eq update_wpm_skip)
qed

theorem null_handle_noop_witness:
  "layer_lbl screen_init = None \<and> mod_lbl screen_init = None \<and>
   layer_event_handler zmk_central \<lparr>highest_layer = 1, explicit_mods = 0\<rparr>
     zmk_layer_state_changed screen_init = Inr (screen_init, 0) \<and>
   update_mod_label zmk_central 0x01 screen_init = Inr screen_init \<and>
   wpm_bar (screen_init\<lparr>wpm_val := Some (lv_obj_create lv_label_class)\<rparr>) = None \<and>
   update_wpm 87 (screen_init\<lparr>wpm_val := Some (lv_obj_create lv_label_class)\<rparr>)
     = Inr (screen_init\<lparr>wpm_val := Some (lv_obj_create lv_label_class)\<rparr>) \<and>
   wpm_val (screen_init\<lparr>wpm_bar := Some (lv_obj_create lv_bar_class)\<rparr>) = None \<and>
   wpm_event_handler zmk_peripheral \<lparr>highest_layer = 1, explicit_mods = 0\<rparr>
     (zmk_wpm_state_changed 87) (screen_init\<lparr>wpm_bar := Some (lv_obj_create lv_bar_class)\<rparr>)
     = Inr (screen_init\<lparr>wpm_bar := Some (lv_obj_create lv_bar_class)\<rparr>, 0)"
proof -
  have b: "ZMK_EV_EVENT_BUBBLE zmk_peripheral = 0" "ZMK_EV_EVENT_BUBBLE zmk_central = 0"
    by (simp_all add: zmk_peripheral_def zmk_central_def)
  have n: "layer_lbl screen_init = None" "mod_lbl screen_init = None"
    "wpm_bar (screen_init\<lparr>wpm_val := Some (lv_obj_create lv_label_class)\<rparr>) = None"
    "wpm_val (screen_init\<lparr>wpm_bar := Some (lv_obj_create lv_bar_class)\<rparr>) = None"
    by (simp_all add: screen_init_def)
  show ?thesis
    using n
      null_handle_noop [where s = screen_init and env = zmk_central
        and hst = "\<lparr>highest_layer = 1, explicit_mods = 0\<rparr>" and eh = zmk_layer_state_changed
        and m = "0x01" and v = 87]
      null_handle_noop [where s = "screen_init\<lparr>wpm_val := Some (lv_obj_create lv_label_class)\<rparr>"
        and env = zmk_central and hst = "\<lparr>highest_layer = 1, explicit_mods = 0\<rparr>"
        and eh = zmk_layer_state_changed and m = "0x01" and v = 87]
      null_handle_noop [where s = "screen_init\<lparr>wpm_bar := Some (lv_obj_create lv_bar_class)\<rparr>"
        and env = zmk_peripheral and hst = "\<lparr>highest_layer = 1, explicit_mods = 0\<rparr>"
        and eh = zmk_layer_state_changed and m = "0x01" and v = 87]
    by (simp add: b)
qed

text \<open>
  C8. Each of the three listeners, on either half, in any state, for any event and any
  host state, returns without a fault, and what it returns is the propagation signal.
\<close>

theorem handlers_bubble:
  "(\<exists>s'. layer_event_handler env hst eh s = Inr (s', ZMK_EV_EVENT_BUBBLE env)) \<and>
   (\<exists>s'. mod_event_handler env hst eh s = Inr (s', ZMK_EV_EVENT_BUBBLE env)) \<and>
   (\<exists>s'. wpm_event_handler env hst eh s = Inr (s', ZMK_EV_EVENT_BUBBLE env))"
proof -
  have "\<exists>s'. layer_event_handler env hst eh s = Inr (s', ZMK_EV_EVENT_BUBBLE env)"
  proof (cases "\<not> is_left_side env \<or> layer_lbl s = None")
    case True
    then show ?thesis by (simp add: layer_handler_skip)
  next
    case False
    then obtain l where "is_left_side env" "layer_lbl s = Some l" by auto
    then show ?thesis by (simp add: layer_handler_left)
  qed
  moreover
  have "\<exists>s'. mod_event_handler env hst eh s = Inr (s', ZMK_EV_EVENT_BUBBLE env)"
    by (simp add: mod_handler_eq)
  moreover
  have "\<exists>s'. wpm_event_handler env hst eh s = Inr (s', ZMK_EV_EVENT_BUBBLE env)"
  proof (cases "is_left_side env")
    case True
    then show ?thesis by (simp add: wpm_handler_left)
  next
    case False
    show ?thesis
    proof (cases eh)
      case (zmk_wpm_state_changed v)
      from update_wpm_total [of v s] obtain s' where "update_wpm v s = Inr s'" by blast
      with False zmk_wpm_state_changed show ?thesis
        by (simp add: wpm_handler_right bind_res_def)
    qed (simp_all add: wpm_handler_right [OF False])
  qed
  ultimately show ?thesis by blast
qed

theorem handlers_bubble_witness:
  "\<exists>pl sl pr sr.
     zmk_display_status_screen zmk_central (lv_obj_create lv_obj_class) screen_init
       = Inr ((pl, sl), 0) \<and>
     zmk_display_status_screen zmk_peripheral (lv_obj_create lv_obj_class) screen_init
       = Inr ((pr, sr), 0) \<and>
     (\<exists>s'. layer_event_handler zmk_central \<lparr>highest_layer = 3, explicit_mods = 0x08\<rparr>
              zmk_layer_state_changed sl = Inr (s', 0)) \<and>
     (\<exists>s'. mod_event_handler zmk_central \<lparr>highest_layer = 3, explicit_mods = 0x08\<rparr>
              zmk_modifiers_state_changed sl = Inr (s', 0)) \<and>
     (\<exists>s'. wpm_event_handler zmk_peripheral \<lparr>highest_layer = 3, explicit_mods = 0x08\<rparr>
              (zmk_wpm_state_changed 120) sr = Inr (s', 0))"
proof -
  obtain pl sl where l: "zmk_display_status_screen zmk_central (lv_obj_create lv_obj_class) screen_init
       = Inr ((pl, sl), 0)"
    by (simp add: zmk_display_status_screen_def central_is_left build_left bind_res_def)
  obtain pr sr where r: "zmk_display_status_screen zmk_peripheral (lv_obj_create lv_obj_class) screen_init
       = Inr ((pr, sr), 0)"
    by (simp add: zmk_display_status_screen_def peripheral_is_right build_right_screen_def
          bind_res_def via_wpm_lbl_def via_wpm_val_def via_wpm_bar_def)
  have b: "ZMK_EV_EVENT_BUBBLE zmk_peripheral = 0" "ZMK_EV_EVENT_BUBBLE zmk_central = 0"
    by (simp_all add: zmk_peripheral_def zmk_central_def)
  show ?thesis
    using l r
      handlers_bubble [of zmk_central "\<lparr>highest_layer = 3, explicit_mods = 0x08\<rparr>"
        zmk_layer_state_changed sl]
      handlers_bubble [of zmk_central "\<lparr>highest_layer = 3, explicit_mods = 0x08\<rparr>"
        zmk_modifiers_state_changed sl]
      handlers_bubble [of zmk_peripheral "\<lparr>highest_layer = 3, explicit_mods = 0x08\<rparr>"
        "zmk_wpm_state_changed 120" sr]
    by (simp add: b)
qed

text \<open>
  C9. The modifier string is built without a fault, and the abbreviation of a modifier
  occurs in it exactly when the left-hand bit or the right-hand bit of that modifier
  is set in the bitmask. Two bitmasks that agree, modifier by modifier, on whether one
  of the two bits is set give the same string.
\<close>

theorem mod_left_right_alike:
  "\<exists>t. mod_buf env m = Inr t \<and>
       (\<forall>md. sublist (abbrev md) t \<longleftrightarrow> mod_set env m md) \<and>
       (\<forall>m'. (\<forall>md. mod_set env m' md = mod_set env m md) \<longrightarrow> mod_buf env m' = Inr t)"
proof (intro exI conjI allI impI)
  show "mod_buf env m = Inr (mod_text env m)" by (rule mod_buf_eq)
next
  fix md
  show "sublist (abbrev md) (mod_text env m) \<longleftrightarrow> mod_set env m md" by (rule mod_text_sublist)
next
  fix m'
  assume "\<forall>md. mod_set env m' md = mod_set env m md"
  then have "mod_text env m' = mod_text env m" by (intro mod_text_cong) simp
  then show "mod_buf env m' = Inr (mod_text env m)" by (simp add: mod_buf_eq)
qed

theorem mod_left_right_alike_witness:
  "mod_buf zmk_central 0x01 = Inr ''Ctl '' \<and> mod_buf zmk_central 0x10 = Inr ''Ctl '' \<and>
   mod_buf zmk_central 0x11 = Inr ''Ctl '' \<and>
   sublist ''Ctl'' ''Ctl '' \<and> \<not> sublist ''Sft'' ''Ctl ''"
proof -
  have m: "\<And>md. mod_set zmk_central 0x10 md = (md = Ctrl)"
          "\<And>md. mod_set zmk_central 0x01 md = (md = Ctrl)"
          "\<And>md. mod_set zmk_central 0x11 md = (md = Ctrl)"
    subgoal for md by (cases md) (simp_all add: mod_set_def zmk_central_def)
    subgoal for md by (cases md) (simp_all add: mod_set_def zmk_central_def)
    subgoal for md by (cases md) (simp_all add: mod_set_def zmk_central_def)
    done
  have e: "mod_buf zmk_central 0x01 = Inr ''Ctl ''"
    by (simp add: mod_buf_def zmk_central_def bind_res_def strcat_def strlen_def)
  from mod_left_right_alike [of zmk_central "0x01"] e
  have s: "\<forall>md. sublist (abbrev md) ''Ctl '' = (md = Ctrl)"
    and c: "\<forall>m'. (\<forall>md. mod_set zmk_central m' md = (md = Ctrl)) \<longrightarrow> mod_buf zmk_central m' = Inr ''Ctl ''"
    by (simp_all add: m)
  from c [rule_format, of "0x10"] have "mod_buf zmk_central 0x10 = Inr ''Ctl ''"
    by (simp add: m)
  moreover from c [rule_format, of "0x11"] have "mod_buf zmk_central 0x11 = Inr ''Ctl ''"
    by (simp add: m)
  moreover from s [rule_format, of Ctrl] s [rule_format, of Shift]
  have "sublist ''Ctl'' ''Ctl ''" "\<not> sublist ''Sft'' ''Ctl ''" by simp_all
  ultimately show ?thesis using e by simp
qed

text \<open>
  C10. For every bitmask, no \<^verbatim>\<open>strcat\<close> or \<^verbatim>\<open>strcpy\<close> on the 32-byte buffer of the
  modifier updater writes past its end: the string that results has at most 16
  characters, which with its terminator is less than the 32 bytes, and the updater
  returns in every state.
\<close>

theorem mod_buf_no_overflow:
  "\<exists>buf. mod_buf env m = Inr buf \<and> length buf \<le> 16 \<and> length buf + 1 < 32 \<and>
         (\<forall>s. \<exists>s'. update_mod_label env m s = Inr s')"
  using mod_text_length [of env m] by (simp add: mod_buf_eq update_mod_label_eq)

theorem mod_buf_no_overflow_witness:
  "mod_buf zmk_central 0xFF = Inr ''Ctl Alt Sft Gui '' \<and> length ''Ctl Alt Sft Gui '' = 16 \<and>
   (\<exists>s'. update_mod_label zmk_central 0xFF
            (screen_init\<lparr>mod_lbl := Some (lv_obj_create lv_label_class)\<rparr>) = Inr s')"
proof -
  have e: "mod_buf zmk_central 0xFF = Inr ''Ctl Alt Sft Gui ''"
    by (simp add: mod_buf_def zmk_central_def bind_res_def strcat_def strlen_def)
  from mod_buf_no_overflow [where env = zmk_central and m = "0xFF"]
  have "\<forall>s. \<exists>s'. update_mod_label zmk_central 0xFF s = Inr s'"
    by (simp add: e)
  with e show ?thesis by simp
qed

end
